theory Spec2Isabelle
  imports Main
begin

section \<open>JavaScript values\<close>

text \<open>
  Strings are byte strings (the UTF-8 text of the JavaScript string). The values that
  travel as JSON are the members of \<open>json\<close>; a number is an integer, printed as its
  decimal numeral (what \<open>Number.prototype.toString\<close> gives for the integers below
  2^53 in magnitude; fractions and larger numbers are not modelled). A JavaScript \<open>undefined\<close> is \<open>None\<close> of an option type, a thrown
  exception is a value of \<open>error\<close>.
\<close>

datatype json =
    JNull
  | JBool bool
  | JNumber int
  | JString string
  | JArray "json list"
  | JObject "(string \<times> json) list"

datatype error = Error string | TypeError string | SyntaxError string

fun message :: "error \<Rightarrow> string" where
  "message (Error m) = m"
| "message (TypeError m) = m"
| "message (SyntaxError m) = m"

abbreviation dquote :: char where "dquote \<equiv> CHR 0x22"
abbreviation backslash :: char where "backslash \<equiv> CHR 0x5C"

definition digit_char :: "nat \<Rightarrow> char" where
  "digit_char d = char_of (48 + d)"

fun nat_toString :: "nat \<Rightarrow> string" where
  "nat_toString n =
     (if n < 10 then [digit_char n] else nat_toString (n div 10) @ [digit_char (n mod 10)])"

definition int_toString :: "int \<Rightarrow> string" where
  "int_toString i = (if i < 0 then CHR ''-'' # nat_toString (nat (- i)) else nat_toString (nat i))"

definition bool_toString :: "bool \<Rightarrow> string" where
  "bool_toString b = (if b then ''true'' else ''false'')"

fun join :: "string \<Rightarrow> string list \<Rightarrow> string" where
  "join sep [] = []"
| "join sep [x] = x"
| "join sep (x # y # ys) = x @ sep @ join sep (y # ys)"

subsection \<open>JSON.stringify\<close>

definition hex_lower :: "nat \<Rightarrow> char" where
  "hex_lower d = (if d < 10 then char_of (48 + d) else char_of (87 + d))"

text \<open>QuoteJSONString of ECMAScript, on bytes: the two-character escapes, \<open>\u00XX\<close> for the
  other control characters, every other byte as it is.\<close>

definition JSON_escape :: "char \<Rightarrow> string" where
  "JSON_escape c =
     (if c = CHR 0x08 then [backslash, CHR ''b'']
      else if c = CHR 0x09 then [backslash, CHR ''t'']
      else if c = CHR 0x0A then [backslash, CHR ''n'']
      else if c = CHR 0x0C then [backslash, CHR ''f'']
      else if c = CHR 0x0D then [backslash, CHR ''r'']
      else if c = dquote then [backslash, dquote]
      else if c = backslash then [backslash, backslash]
      else if (of_char c :: nat) < 32
        then [backslash, CHR ''u'', CHR ''0'', CHR ''0'',
              hex_lower ((of_char c :: nat) div 16), hex_lower ((of_char c :: nat) mod 16)]
      else [c])"

definition QuoteJSONString :: "string \<Rightarrow> string" where
  "QuoteJSONString s = dquote # concat (map JSON_escape s) @ [dquote]"

fun JSON_stringify :: "json \<Rightarrow> string"
  and stringify_elements :: "json list \<Rightarrow> string list"
  and stringify_members :: "(string \<times> json) list \<Rightarrow> string list"
where
  "JSON_stringify JNull = ''null''"
| "JSON_stringify (JBool b) = bool_toString b"
| "JSON_stringify (JNumber n) = int_toString n"
| "JSON_stringify (JString s) = QuoteJSONString s"
| "JSON_stringify (JArray xs) = ''['' @ join '','' (stringify_elements xs) @ '']''"
| "JSON_stringify (JObject kvs) = ''{'' @ join '','' (stringify_members kvs) @ ''}''"
| "stringify_elements [] = []"
| "stringify_elements (x # xs) = JSON_stringify x # stringify_elements xs"
| "stringify_members [] = []"
| "stringify_members ((k, v) # kvs) =
     (QuoteJSONString k @ '':'' @ JSON_stringify v) # stringify_members kvs"

section \<open>Session store (src/contexts/AuthContext.tsx)\<close>

text \<open>The interface \<open>User\<close>; its field \<open>id\<close> is \<open>user_id\<close> here.\<close>

record User =
  user_id :: string
  username :: string
  email :: string

text \<open>The object that \<open>JSON.stringify(newUser)\<close> serialises: the three fields of the interface.\<close>

definition User_json :: "User \<Rightarrow> json" where
  "User_json u =
     JObject [(''id'', JString (user_id u)), (''username'', JString (username u)),
              (''email'', JString (email u))]"

text \<open>Every call of a state setter is logged, in order, beside the state it leaves.\<close>

datatype setter_call =
    SetToken "string option"
  | SetUser "User option"
  | SetIsAdmin bool
  | SetIsLoading bool

record AuthState =
  user :: "User option"
  isAdmin :: bool
  token :: "string option"
  isLoading :: bool
  localStorage :: "string \<rightharpoonup> string"
  calls :: "setter_call list"

text \<open>The four \<open>useState\<close> initial values, over the storage the browser holds.\<close>

definition AuthProvider_initial :: "(string \<rightharpoonup> string) \<Rightarrow> AuthState" where
  "AuthProvider_initial storage =
     \<lparr>user = None, isAdmin = False, token = None, isLoading = True,
      localStorage = storage, calls = []\<rparr>"

definition setToken :: "string option \<Rightarrow> AuthState \<Rightarrow> AuthState" where
  "setToken v s = s\<lparr>token := v, calls := calls s @ [SetToken v]\<rparr>"

definition setUser :: "User option \<Rightarrow> AuthState \<Rightarrow> AuthState" where
  "setUser v s = s\<lparr>user := v, calls := calls s @ [SetUser v]\<rparr>"

definition setIsAdmin :: "bool \<Rightarrow> AuthState \<Rightarrow> AuthState" where
  "setIsAdmin v s = s\<lparr>isAdmin := v, calls := calls s @ [SetIsAdmin v]\<rparr>"

definition setIsLoading :: "bool \<Rightarrow> AuthState \<Rightarrow> AuthState" where
  "setIsLoading v s = s\<lparr>isLoading := v, calls := calls s @ [SetIsLoading v]\<rparr>"

definition getItem :: "string \<Rightarrow> AuthState \<Rightarrow> string option" where
  "getItem k s = localStorage s k"

definition setItem :: "string \<Rightarrow> string \<Rightarrow> AuthState \<Rightarrow> AuthState" where
  "setItem k v s = s\<lparr>localStorage := (localStorage s)(k \<mapsto> v)\<rparr>"

definition removeItem :: "string \<Rightarrow> AuthState \<Rightarrow> AuthState" where
  "removeItem k s = s\<lparr>localStorage := (localStorage s)(k := None)\<rparr>"

text \<open>Truthiness of a \<open>string | null\<close>: null and the empty string are falsy.\<close>

fun truthy_string :: "string option \<Rightarrow> bool" where
  "truthy_string None = False"
| "truthy_string (Some s) = (s \<noteq> [])"

text \<open>How a function ends: it returns, or it throws and leaves the state reached so far.\<close>

datatype 'a outcome = Returned 'a | Threw error 'a

text \<open>
  The mount effect of \<open>AuthProvider\<close>. \<open>JSON.parse\<close> is the platform's; it is the parameter
  \<open>parse\<close>, at the type the state declares (\<open>User | null\<close>): \<open>Inl\<close> is the exception it
  throws.
\<close>

definition initialize :: "(string \<Rightarrow> error + User option) \<Rightarrow> AuthState \<Rightarrow> AuthState outcome" where
  "initialize parse s =
     (let storedToken = getItem ''token'' s;
          storedUser = getItem ''user'' s;
          storedIsAdmin = getItem ''isAdmin'' s
      in if truthy_string storedToken \<and> truthy_string storedUser then
           (let s1 = setToken storedToken s in
            case parse (case storedUser of Some text \<Rightarrow> text | None \<Rightarrow> []) of
              Inl e \<Rightarrow> Threw e s1
            | Inr u \<Rightarrow>
                Returned (setIsLoading False
                  (setIsAdmin (storedIsAdmin = Some ''true'') (setUser u s1))))
         else Returned (setIsLoading False s))"

text \<open>
  An argument as it arrives at run time. The signature of \<open>login\<close> declares a \<open>string\<close> and
  a \<open>User\<close>; its callers (Register.tsx, Login.tsx) pass \<open>response.token\<close> and
  \<open>response.user || response.admin\<close> of an untyped response body, and either may be
  \<open>undefined\<close> or \<open>null\<close>.
\<close>

datatype 'a arg = Undefined | Null | Given 'a

text \<open>What a state variable holds of it: \<open>undefined\<close> and \<open>null\<close> are both absent.\<close>

fun held :: "'a arg \<Rightarrow> 'a option" where
  "held Undefined = None"
| "held Null = None"
| "held (Given x) = Some x"

text \<open>\<open>localStorage.setItem\<close> stores the string of its value.\<close>

fun String_arg :: "string arg \<Rightarrow> string" where
  "String_arg Undefined = ''undefined''"
| "String_arg Null = ''null''"
| "String_arg (Given x) = x"

text \<open>\<open>JSON.stringify(newUser)\<close>: \<open>undefined\<close> for \<open>undefined\<close>, the text \<open>null\<close> for \<open>null\<close>.\<close>

fun JSON_stringify_User :: "User arg \<Rightarrow> string arg" where
  "JSON_stringify_User Undefined = Undefined"
| "JSON_stringify_User Null = Given ''null''"
| "JSON_stringify_User (Given u) = Given (JSON_stringify (User_json u))"

text \<open>\<open>adminStatus\<close> is the optional third argument: omitted, it is \<open>false\<close>.\<close>

definition login :: "string arg \<Rightarrow> User arg \<Rightarrow> bool option \<Rightarrow> AuthState \<Rightarrow> AuthState" where
  "login newToken newUser adminStatus_arg s =
     (let adminStatus = (case adminStatus_arg of None \<Rightarrow> False | Some b \<Rightarrow> b)
      in setItem ''isAdmin'' (bool_toString adminStatus)
          (setItem ''user'' (String_arg (JSON_stringify_User newUser))
            (setItem ''token'' (String_arg newToken)
              (setIsAdmin adminStatus (setUser (held newUser) (setToken (held newToken) s))))))"

definition logout :: "AuthState \<Rightarrow> AuthState" where
  "logout s =
     removeItem ''isAdmin'' (removeItem ''user'' (removeItem ''token''
       (setIsAdmin False (setUser None (setToken None s)))))"

definition useAuth :: "AuthState option \<Rightarrow> error + AuthState" where
  "useAuth ctx =
     (case ctx of
        None \<Rightarrow> Inl (Error ''useAuth must be used within an AuthProvider'')
      | Some c \<Rightarrow> Inr c)"

text \<open>
  The law of the platform's \<open>JSON.parse\<close> that the store relies on: it reads back what
  \<open>JSON.stringify\<close> wrote for a user record.
\<close>

definition JSON_parse_inverts :: "(string \<Rightarrow> error + User option) \<Rightarrow> bool" where
  "JSON_parse_inverts parse \<longleftrightarrow> (\<forall>u. parse (JSON_stringify (User_json u)) = Inr (Some u))"

subsection \<open>A reader for the stored user\<close>

text \<open>
  An instance of \<open>parse\<close> to run the store on concrete storage. It reads the literal
  \<open>null\<close> and the text \<open>JSON.stringify\<close> writes for a user record (the three members in
  this order, no white space, escapes of code points below 0x80), and throws a SyntaxError
  on every other text. That is what \<open>JSON.parse\<close> does on text that is not JSON, such as
  \<open>undefined\<close> or an unclosed brace; JSON of another shape (a number, an array, an object
  with other members) is no value of the type \<open>User | null\<close>, and the instance rejects it
  too.
\<close>

definition hex_value :: "char \<Rightarrow> nat option" where
  "hex_value c =
     (let n = (of_char c :: nat) in
      if 48 \<le> n \<and> n \<le> 57 then Some (n - 48)
      else if 97 \<le> n \<and> n \<le> 102 then Some (n - 87)
      else if 65 \<le> n \<and> n \<le> 70 then Some (n - 55)
      else None)"

definition simple_escape :: "char \<Rightarrow> char option" where
  "simple_escape e =
     (if e = CHR ''b'' then Some (CHR 0x08)
      else if e = CHR ''t'' then Some (CHR 0x09)
      else if e = CHR ''n'' then Some (CHR 0x0A)
      else if e = CHR ''f'' then Some (CHR 0x0C)
      else if e = CHR ''r'' then Some (CHR 0x0D)
      else if e = dquote then Some dquote
      else if e = backslash then Some backslash
      else if e = CHR ''/'' then Some (CHR ''/'')
      else None)"

definition prepend :: "char \<Rightarrow> (string \<times> string) option \<Rightarrow> (string \<times> string) option" where
  "prepend c r = (case r of None \<Rightarrow> None | Some (s, rest) \<Rightarrow> Some (c # s, rest))"

fun read_string :: "string \<Rightarrow> (string \<times> string) option" where
  "read_string [] = None"
| "read_string (c # cs) =
     (if c = dquote then Some ([], cs)
      else if c = backslash then
        (case cs of
           [] \<Rightarrow> None
         | e # r \<Rightarrow>
             if e = CHR ''u'' then
               (case r of
                  h1 # h2 # h3 # h4 # r' \<Rightarrow>
                    (case (hex_value h1, hex_value h2, hex_value h3, hex_value h4) of
                       (Some a, Some b, Some c', Some d) \<Rightarrow>
                         (let n = ((a * 16 + b) * 16 + c') * 16 + d
                          in if n < 128 then prepend (char_of n) (read_string r') else None)
                     | _ \<Rightarrow> None)
                | _ \<Rightarrow> None)
             else (case simple_escape e of
                     None \<Rightarrow> None
                   | Some d \<Rightarrow> prepend d (read_string r)))
      else if (of_char c :: nat) < 32 then None
      else prepend c (read_string cs))"

definition expect :: "string \<Rightarrow> string \<Rightarrow> string option" where
  "expect p s = (if take (length p) s = p then Some (drop (length p) s) else None)"

definition read_member :: "string \<Rightarrow> string \<Rightarrow> (string \<times> string) option" where
  "read_member key s =
     (case expect (QuoteJSONString key @ '':'' @ [dquote]) s of
        None \<Rightarrow> None
      | Some r \<Rightarrow> read_string r)"

definition read_User :: "string \<Rightarrow> User option" where
  "read_User txt =
     (case expect ''{'' txt of None \<Rightarrow> None | Some r0 \<Rightarrow>
      case read_member ''id'' r0 of None \<Rightarrow> None | Some (i, r1) \<Rightarrow>
      case expect '','' r1 of None \<Rightarrow> None | Some r2 \<Rightarrow>
      case read_member ''username'' r2 of None \<Rightarrow> None | Some (n, r3) \<Rightarrow>
      case expect '','' r3 of None \<Rightarrow> None | Some r4 \<Rightarrow>
      case read_member ''email'' r4 of None \<Rightarrow> None | Some (e, r5) \<Rightarrow>
      if r5 = ''}'' then Some \<lparr>user_id = i, username = n, email = e\<rparr> else None)"

definition JSON_parse_User :: "string \<Rightarrow> error + User option" where
  "JSON_parse_User txt =
     (if txt = ''null'' then Inr None
      else case read_User txt of
             None \<Rightarrow> Inl (SyntaxError ''JSON.parse: unexpected input'')
           | Some u \<Rightarrow> Inr (Some u))"

subsection \<open>Sequences of operations\<close>






section \<open>Route guard (App.tsx)\<close>

datatype 'a element = Spinner | Navigate string bool | Fragment 'a

text \<open>\<open>Navigate to replace\<close> is \<open>Navigate to True\<close>. The property \<open>adminOnly\<close> is optional and
  false when omitted.\<close>

definition ProtectedRoute :: "'a \<Rightarrow> bool option \<Rightarrow> AuthState option \<Rightarrow> error + 'a element" where
  "ProtectedRoute children adminOnly_arg ctx =
     (let adminOnly = (case adminOnly_arg of None \<Rightarrow> False | Some b \<Rightarrow> b) in
      case useAuth ctx of
        Inl e \<Rightarrow> Inl e
      | Inr auth \<Rightarrow>
          if isLoading auth then Inr Spinner
          else if user auth = None then Inr (Navigate ''/login'' True)
          else if adminOnly \<and> \<not> isAdmin auth then Inr (Navigate ''/dashboard'' True)
          else Inr (Fragment children))"

section \<open>Property access, truthiness and ToString on parsed JSON\<close>

text \<open>
  A response body is typed \<open>any\<close>: the code reads properties of whatever JSON value arrived.
  \<open>get v k\<close> is \<open>v.k\<close> for the property names this program reads (message, success, token,
  user, admin, username, data, articles), none of which a built-in prototype defines:
  reading a property of \<open>null\<close> or \<open>undefined\<close> throws a TypeError (the message is V8's),
  an object gives its member or \<open>undefined\<close>, every other value gives \<open>undefined\<close>.
\<close>

fun get :: "json option \<Rightarrow> string \<Rightarrow> error + json option" where
  "get None k =
     Inl (TypeError (''Cannot read properties of undefined (reading '' @ [CHR 0x27] @ k @ [CHR 0x27] @ '')''))"
| "get (Some JNull) k =
     Inl (TypeError (''Cannot read properties of null (reading '' @ [CHR 0x27] @ k @ [CHR 0x27] @ '')''))"
| "get (Some (JObject kvs)) k = Inr (map_of kvs k)"
| "get (Some v) k = Inr None"

fun truthy :: "json option \<Rightarrow> bool" where
  "truthy None = False"
| "truthy (Some JNull) = False"
| "truthy (Some (JBool b)) = b"
| "truthy (Some (JNumber n)) = (n \<noteq> 0)"
| "truthy (Some (JString s)) = (s \<noteq> [])"
| "truthy (Some (JArray xs)) = True"
| "truthy (Some (JObject kvs)) = True"

text \<open>\<open>a || b\<close> on values.\<close>

definition or_else :: "json option \<Rightarrow> json option \<Rightarrow> json option" where
  "or_else a b = (if truthy a then a else b)"

fun json_toString :: "json \<Rightarrow> string"
  and elements_toString :: "json list \<Rightarrow> string list"
where
  "json_toString JNull = ''null''"
| "json_toString (JBool b) = bool_toString b"
| "json_toString (JNumber n) = int_toString n"
| "json_toString (JString s) = s"
| "json_toString (JArray xs) = join '','' (elements_toString xs)"
| "json_toString (JObject kvs) = ''[object Object]''"
| "elements_toString [] = []"
| "elements_toString (x # xs) =
     (if x = JNull then [] else json_toString x) # elements_toString xs"

definition ToString :: "json option \<Rightarrow> string" where
  "ToString v = (case v of None \<Rightarrow> ''undefined'' | Some j \<Rightarrow> json_toString j)"

section \<open>API client (src/lib/api.ts)\<close>

definition API_BASE_URL :: string where
  "API_BASE_URL = ''https://backend-articel-project.vercel.app/api''"

record RequestInit =
  http_method :: "string option"
  headers :: "(string \<rightharpoonup> string) option"
  body :: "string option"

text \<open>The default \<open>options = {}\<close>.\<close>

definition no_options :: RequestInit where
  "no_options = \<lparr>http_method = None, headers = None, body = None\<rparr>"

text \<open>What \<open>fetch\<close> resolves to: \<open>ok\<close> is the status being in 200..299, \<open>json\<close> is what
  \<open>response.json()\<close> gives, the parsed body or the exception of the parser.\<close>

record Response =
  status :: nat
  json :: "error + json"

definition ok :: "Response \<Rightarrow> bool" where
  "ok response \<longleftrightarrow> 200 \<le> status response \<and> status response \<le> 299"

record toast_props =
  title :: string
  description :: string
  variant :: "string option"

text \<open>What a handler does to the world, in order. \<open>Fetch\<close> is the call of \<open>fetch\<close>, \<open>Settled\<close>
  the moment the awaited promise resolves (\<open>Inr\<close>) or rejects (\<open>Inl\<close>).\<close>

datatype event =
    Fetch string RequestInit
  | Settled "error + Response"
  | ConsoleError string error
  | Toast toast_props
  | PreventDefault
  | ViewSetIsLoading bool
  | ViewSetArticles "json option"
  | CallLogin "json option" "json option" bool
  | NavigateTo string

text \<open>The network answers a call of \<open>fetch\<close> from the calls made before it and the call
  itself.\<close>

type_synonym network = "(string \<times> RequestInit) list \<Rightarrow> string \<Rightarrow> RequestInit \<Rightarrow> error + Response"

fun fetched :: "event list \<Rightarrow> (string \<times> RequestInit) list" where
  "fetched [] = []"
| "fetched (Fetch u i # es) = (u, i) # fetched es"
| "fetched (e # es) = fetched es"

definition getAuthHeaders :: "string option \<Rightarrow> (string \<rightharpoonup> string)" where
  "getAuthHeaders token_arg =
     (let hs = [''Content-Type'' \<mapsto> ''application/json''] in
      case token_arg of
        None \<Rightarrow> hs
      | Some t \<Rightarrow> if t \<noteq> [] then hs(''Authorization'' \<mapsto> ''Bearer '' @ t) else hs)"

text \<open>The object spread \<open>{...a, ...b}\<close> of two header objects is \<open>a ++ b\<close>; spreading
  \<open>undefined\<close> adds nothing.\<close>

definition request :: "network \<Rightarrow> string \<Rightarrow> RequestInit \<Rightarrow> event list \<Rightarrow> (error + json) \<times> event list" where
  "request net endpoint options log =
     (let url = API_BASE_URL @ endpoint;
          init = options\<lparr>headers :=
                   Some (getAuthHeaders None ++
                         (case headers options of None \<Rightarrow> Map.empty | Some h \<Rightarrow> h))\<rparr>;
          settled = net (fetched log) url init;
          log1 = log @ [Fetch url init, Settled settled];
          thrown = (\<lambda>e. (Inl e, log1 @ [ConsoleError ''API request error:'' e]))
      in case settled of
           Inl e \<Rightarrow> thrown e
         | Inr response \<Rightarrow>
             (case json response of
                Inl e \<Rightarrow> thrown e
              | Inr data \<Rightarrow>
                  if \<not> ok response then
                    (case get (Some data) ''message'' of
                       Inl e \<Rightarrow> thrown e
                     | Inr m \<Rightarrow>
                         thrown (Error (ToString (or_else m (Some (JString ''API request failed''))))))
                  else (Inr data, log1)))"

text \<open>
  \<open>request\<close> is an async function. A call runs it up to \<open>await fetch(...)\<close>: \<open>fetch\<close> has been
  called and its promise is pending. The rest runs when that promise settles. A caller
  that awaits the call gets both in a row, which is \<open>request\<close> above; a caller that does not
  await gets the first part, and the rest runs after the caller has returned.
\<close>

record pending_request =
  pending_url :: string
  pending_init :: RequestInit
  pending_history :: "(string \<times> RequestInit) list"

definition request_call :: "string \<Rightarrow> RequestInit \<Rightarrow> event list \<Rightarrow> pending_request \<times> event list" where
  "request_call endpoint options log =
     (let url = API_BASE_URL @ endpoint;
          init = options\<lparr>headers :=
                   Some (getAuthHeaders None ++
                         (case headers options of None \<Rightarrow> Map.empty | Some h \<Rightarrow> h))\<rparr>
      in (\<lparr>pending_url = url, pending_init = init, pending_history = fetched log\<rparr>,
          log @ [Fetch url init]))"

definition request_resume :: "network \<Rightarrow> pending_request \<Rightarrow> event list \<Rightarrow> (error + json) \<times> event list" where
  "request_resume net p log =
     (let settled = net (pending_history p) (pending_url p) (pending_init p);
          log1 = log @ [Settled settled];
          thrown = (\<lambda>e. (Inl e, log1 @ [ConsoleError ''API request error:'' e]))
      in case settled of
           Inl e \<Rightarrow> thrown e
         | Inr response \<Rightarrow>
             (case json response of
                Inl e \<Rightarrow> thrown e
              | Inr data \<Rightarrow>
                  if \<not> ok response then
                    (case get (Some data) ''message'' of
                       Inl e \<Rightarrow> thrown e
                     | Inr m \<Rightarrow>
                         thrown (Error (ToString (or_else m (Some (JString ''API request failed''))))))
                  else (Inr data, log1)))"

record Credentials =
  reg_username :: string
  reg_email :: string
  reg_password :: string

definition Credentials_json :: "Credentials \<Rightarrow> json" where
  "Credentials_json d =
     JObject [(''username'', JString (reg_username d)), (''email'', JString (reg_email d)),
              (''password'', JString (reg_password d))]"

definition registerUser :: "network \<Rightarrow> Credentials \<Rightarrow> event list \<Rightarrow> (error + json) \<times> event list" where
  "registerUser net userData log =
     request net ''/users/register''
       \<lparr>http_method = Some ''POST'', headers = None,
        body = Some (JSON_stringify (Credentials_json userData))\<rparr> log"

definition registerAdmin :: "network \<Rightarrow> Credentials \<Rightarrow> event list \<Rightarrow> (error + json) \<times> event list" where
  "registerAdmin net adminData log =
     request net ''/admin/register''
       \<lparr>http_method = Some ''POST'', headers = None,
        body = Some (JSON_stringify (Credentials_json adminData))\<rparr> log"

subsection \<open>Query strings\<close>

text \<open>An options object is its own properties in order; a property whose value is
  \<open>undefined\<close> holds \<open>None\<close>. A value is a number or a string.\<close>

datatype param = Num int | Str string

fun param_toString :: "param \<Rightarrow> string" where
  "param_toString (Num n) = int_toString n"
| "param_toString (Str s) = s"

type_synonym params = "(string \<times> param option) list"

text \<open>The block every list operation starts with: a new \<open>URLSearchParams\<close>, and one
  \<open>append\<close> for each entry whose value is not \<open>undefined\<close>.\<close>

definition searchParams_of :: "params option \<Rightarrow> (string \<times> string) list" where
  "searchParams_of params_arg =
     (case params_arg of
        None \<Rightarrow> []
      | Some ps \<Rightarrow>
          fold (\<lambda>(key, v) searchParams.
                  case v of
                    None \<Rightarrow> searchParams
                  | Some x \<Rightarrow> searchParams @ [(key, param_toString x)])
               ps [])"

definition hex_upper :: "nat \<Rightarrow> char" where
  "hex_upper d = (if d < 10 then char_of (48 + d) else char_of (55 + d))"

text \<open>The application/x-www-form-urlencoded serialiser of the URL standard, on the bytes of
  the text: a space is \<open>+\<close>, letters, digits and \<open>* - . _\<close> stay, every other byte is
  \<open>%XX\<close>.\<close>

definition urlencode_byte :: "char \<Rightarrow> string" where
  "urlencode_byte c =
     (let n = (of_char c :: nat) in
      if c = CHR '' '' then ''+''
      else if (48 \<le> n \<and> n \<le> 57) \<or> (65 \<le> n \<and> n \<le> 90) \<or> (97 \<le> n \<and> n \<le> 122) \<or>
              c = CHR ''*'' \<or> c = CHR ''-'' \<or> c = CHR ''.'' \<or> c = CHR ''_'' then [c]
      else [CHR ''%'', hex_upper (n div 16), hex_upper (n mod 16)])"

definition urlencode :: "string \<Rightarrow> string" where
  "urlencode s = concat (map urlencode_byte s)"

definition URLSearchParams_toString :: "(string \<times> string) list \<Rightarrow> string" where
  "URLSearchParams_toString ps = join ''&'' (map (\<lambda>(k, v). urlencode k @ ''='' @ urlencode v) ps)"

text \<open>The endpoint with \<open>?queryString\<close> when the query string is not empty.\<close>

definition with_query :: "string \<Rightarrow> params option \<Rightarrow> string" where
  "with_query path params_arg =
     (let queryString = URLSearchParams_toString (searchParams_of params_arg)
      in path @ (if queryString \<noteq> [] then ''?'' @ queryString else []))"

definition getAllArticles :: "network \<Rightarrow> params option \<Rightarrow> event list \<Rightarrow> (error + json) \<times> event list" where
  "getAllArticles net params_arg log =
     request net (with_query ''/users/articles'' params_arg) no_options log"

definition getUserArticles ::
    "network \<Rightarrow> string \<Rightarrow> params option \<Rightarrow> event list \<Rightarrow> (error + json) \<times> event list" where
  "getUserArticles net tok params_arg log =
     request net (with_query ''/users/my-articles'' params_arg)
       \<lparr>http_method = None, headers = Some (getAuthHeaders (Some tok)), body = None\<rparr> log"

definition getPendingArticles ::
    "network \<Rightarrow> string \<Rightarrow> params option \<Rightarrow> event list \<Rightarrow> (error + json) \<times> event list" where
  "getPendingArticles net tok params_arg log =
     request net (with_query ''/admin/articles/pending'' params_arg)
       \<lparr>http_method = None, headers = Some (getAuthHeaders (Some tok)), body = None\<rparr> log"

definition getAllArticlesAdmin ::
    "network \<Rightarrow> string \<Rightarrow> params option \<Rightarrow> event list \<Rightarrow> (error + json) \<times> event list" where
  "getAllArticlesAdmin net tok params_arg log =
     request net (with_query ''/admin/articles'' params_arg)
       \<lparr>http_method = None, headers = Some (getAuthHeaders (Some tok)), body = None\<rparr> log"

definition getAllUsers ::
    "network \<Rightarrow> string \<Rightarrow> params option \<Rightarrow> event list \<Rightarrow> (error + json) \<times> event list" where
  "getAllUsers net tok params_arg log =
     request net (with_query ''/admin/users'' params_arg)
       \<lparr>http_method = None, headers = Some (getAuthHeaders (Some tok)), body = None\<rparr> log"

definition approveArticle ::
    "network \<Rightarrow> string \<Rightarrow> string \<Rightarrow> event list \<Rightarrow> (error + json) \<times> event list" where
  "approveArticle net article_id tok log =
     request net (''/admin/articles/'' @ article_id @ ''/approve'')
       \<lparr>http_method = Some ''PUT'', headers = Some (getAuthHeaders (Some tok)), body = None\<rparr> log"

section \<open>Views\<close>

text \<open>\<open>error.message || fallback\<close> in a catch block.\<close>

definition message_or :: "error \<Rightarrow> string \<Rightarrow> string" where
  "message_or e fallback = (if message e \<noteq> [] then message e else fallback)"

text \<open>\<open>v?.k\<close>: \<open>undefined\<close> when \<open>v\<close> is \<open>null\<close> or \<open>undefined\<close>, \<open>v.k\<close> otherwise.\<close>

definition optional_get :: "json option \<Rightarrow> string \<Rightarrow> error + json option" where
  "optional_get v k = (if v = None \<or> v = Some JNull then Inr None else get v k)"

subsection \<open>AdminArticles.tsx\<close>

text \<open>A view's function takes the token of the session and the events so far, and returns
  the events extended. An async function that the view calls without \<open>await\<close> is split at
  its first \<open>await\<close>: the call (\<open>_call\<close>) runs up to there and leaves the request in flight,
  the rest (\<open>_resume\<close>) runs when the request settles.\<close>

definition AdminArticles_fetchArticles_call :: "string option \<Rightarrow> event list \<Rightarrow> pending_request option \<times> event list" where
  "AdminArticles_fetchArticles_call tok_opt log =
     (if \<not> truthy_string tok_opt then (None, log)
      else
        let tok = (case tok_opt of Some t \<Rightarrow> t | None \<Rightarrow> []);
            (p, log1) = request_call (with_query ''/admin/articles'' (Some [(''limit'', Some (Num 50))]))
                          \<lparr>http_method = None, headers = Some (getAuthHeaders (Some tok)), body = None\<rparr>
                          log
        in (Some p, log1))"

definition AdminArticles_fetchArticles_resume :: "network \<Rightarrow> pending_request \<Rightarrow> event list \<Rightarrow> event list" where
  "AdminArticles_fetchArticles_resume net p log =
     (let caught = (\<lambda>e l. l @
            [ConsoleError ''Error fetching articles:'' e,
             Toast \<lparr>title = ''Error loading articles'', description = ''Please try again later.'',
                    variant = Some ''destructive''\<rparr>]);
          (r, log1) = request_resume net p log;
          log2 =
            (case r of
               Inl e \<Rightarrow> caught e log1
             | Inr response \<Rightarrow>
                 (case get (Some response) ''success'' of
                    Inl e \<Rightarrow> caught e log1
                  | Inr success \<Rightarrow>
                      if truthy success then
                        (case get (Some response) ''data'' of
                           Inl e \<Rightarrow> caught e log1
                         | Inr d \<Rightarrow>
                             (case get d ''articles'' of
                                Inl e \<Rightarrow> caught e log1
                              | Inr articles \<Rightarrow> log1 @ [ViewSetArticles articles]))
                      else log1))
      in log2 @ [ViewSetIsLoading False])"

text \<open>\<open>fetchArticles\<close> run to its end, as the mount effect leaves it.\<close>

definition AdminArticles_fetchArticles :: "network \<Rightarrow> string option \<Rightarrow> event list \<Rightarrow> event list" where
  "AdminArticles_fetchArticles net tok_opt log =
     (case AdminArticles_fetchArticles_call tok_opt log of
        (None, log1) \<Rightarrow> log1
      | (Some p, log1) \<Rightarrow> AdminArticles_fetchArticles_resume net p log1)"

text \<open>\<open>handleApproveArticle\<close> awaits \<open>apiClient.approveArticle\<close>, so that call runs to its end
  before the handler goes on; it calls \<open>fetchArticles\<close> without \<open>await\<close> as its last step, so it
  returns with that refetch in flight.\<close>

definition AdminArticles_handleApproveArticle ::
    "network \<Rightarrow> string option \<Rightarrow> string \<Rightarrow> event list \<Rightarrow> pending_request option \<times> event list" where
  "AdminArticles_handleApproveArticle net tok_opt articleId log =
     (if \<not> truthy_string tok_opt then (None, log)
      else
        let tok = (case tok_opt of Some t \<Rightarrow> t | None \<Rightarrow> []);
            (r, log1) = approveArticle net articleId tok log
        in case r of
             Inl e \<Rightarrow>
               (None,
                log1 @ [Toast \<lparr>title = ''Error approving article'',
                                description = message_or e ''Please try again.'',
                                variant = Some ''destructive''\<rparr>])
           | Inr response \<Rightarrow>
               AdminArticles_fetchArticles_call tok_opt
                 (log1 @ [Toast \<lparr>title = ''Article approved'',
                                  description = ''The article has been published successfully.'',
                                  variant = None\<rparr>]))"

subsection \<open>AdminPending.tsx\<close>

definition AdminPending_fetchPendingArticles_call :: "string option \<Rightarrow> event list \<Rightarrow> pending_request option \<times> event list" where
  "AdminPending_fetchPendingArticles_call tok_opt log =
     (if \<not> truthy_string tok_opt then (None, log)
      else
        let tok = (case tok_opt of Some t \<Rightarrow> t | None \<Rightarrow> []);
            (p, log1) = request_call (with_query ''/admin/articles/pending'' (Some [(''limit'', Some (Num 50))]))
                          \<lparr>http_method = None, headers = Some (getAuthHeaders (Some tok)), body = None\<rparr>
                          log
        in (Some p, log1))"

definition AdminPending_fetchPendingArticles_resume :: "network \<Rightarrow> pending_request \<Rightarrow> event list \<Rightarrow> event list" where
  "AdminPending_fetchPendingArticles_resume net p log =
     (let caught = (\<lambda>e l. l @
            [ConsoleError ''Error fetching pending articles:'' e,
             Toast \<lparr>title = ''Error loading pending articles'', description = ''Please try again later.'',
                    variant = Some ''destructive''\<rparr>]);
          (r, log1) = request_resume net p log;
          log2 =
            (case r of
               Inl e \<Rightarrow> caught e log1
             | Inr response \<Rightarrow>
                 (case get (Some response) ''success'' of
                    Inl e \<Rightarrow> caught e log1
                  | Inr success \<Rightarrow>
                      if truthy success then
                        (case get (Some response) ''data'' of
                           Inl e \<Rightarrow> caught e log1
                         | Inr d \<Rightarrow>
                             (case get d ''articles'' of
                                Inl e \<Rightarrow> caught e log1
                              | Inr articles \<Rightarrow> log1 @ [ViewSetArticles articles]))
                      else log1))
      in log2 @ [ViewSetIsLoading False])"

text \<open>\<open>fetchPendingArticles\<close> run to its end, as the mount effect leaves it.\<close>

definition AdminPending_fetchPendingArticles :: "network \<Rightarrow> string option \<Rightarrow> event list \<Rightarrow> event list" where
  "AdminPending_fetchPendingArticles net tok_opt log =
     (case AdminPending_fetchPendingArticles_call tok_opt log of
        (None, log1) \<Rightarrow> log1
      | (Some p, log1) \<Rightarrow> AdminPending_fetchPendingArticles_resume net p log1)"

text \<open>\<open>handleApproveArticle\<close> awaits \<open>apiClient.approveArticle\<close>, so that call runs to its end
  before the handler goes on; it calls \<open>fetchPendingArticles\<close> without \<open>await\<close> as its last step, so it
  returns with that refetch in flight.\<close>

definition AdminPending_handleApproveArticle ::
    "network \<Rightarrow> string option \<Rightarrow> string \<Rightarrow> event list \<Rightarrow> pending_request option \<times> event list" where
  "AdminPending_handleApproveArticle net tok_opt articleId log =
     (if \<not> truthy_string tok_opt then (None, log)
      else
        let tok = (case tok_opt of Some t \<Rightarrow> t | None \<Rightarrow> []);
            (r, log1) = approveArticle net articleId tok log
        in case r of
             Inl e \<Rightarrow>
               (None,
                log1 @ [Toast \<lparr>title = ''Error approving article'',
                                description = message_or e ''Please try again.'',
                                variant = Some ''destructive''\<rparr>])
           | Inr response \<Rightarrow>
               AdminPending_fetchPendingArticles_call tok_opt
                 (log1 @ [Toast \<lparr>title = ''Article approved'',
                                  description = ''The article has been published successfully.'',
                                  variant = None\<rparr>]))"

subsection \<open>Register.tsx\<close>

record FormData =
  form_username :: string
  form_email :: string
  password :: string
  confirmPassword :: string

text \<open>The branch \<open>if (response.success)\<close> of \<open>handleSubmit\<close>. The view reaches the session
  only through \<open>login\<close>; the call is the event \<open>CallLogin\<close>, with the values of the response
  as they are.\<close>

definition Register_success :: "json \<Rightarrow> string \<Rightarrow> error + event list" where
  "Register_success response activeTab =
     (case get (Some response) ''token'' of Inl e \<Rightarrow> Inl e | Inr tk \<Rightarrow>
      case get (Some response) ''user'' of Inl e \<Rightarrow> Inl e | Inr usr \<Rightarrow>
      case get (Some response) ''admin'' of Inl e \<Rightarrow> Inl e | Inr adm \<Rightarrow>
      case optional_get usr ''username'' of Inl e \<Rightarrow> Inl e | Inr uname \<Rightarrow>
      case optional_get adm ''username'' of Inl e \<Rightarrow> Inl e | Inr aname \<Rightarrow>
        Inr [CallLogin tk (or_else usr adm) (activeTab = ''admin''),
             Toast \<lparr>title = ''Registration successful'',
                    description = ''Welcome to QuillBoard, '' @ ToString (or_else uname aname) @ ''!'',
                    variant = None\<rparr>,
             NavigateTo (if activeTab = ''admin'' then ''/admin/dashboard'' else ''/dashboard'')])"

definition Register_handleSubmit :: "network \<Rightarrow> FormData \<Rightarrow> string \<Rightarrow> event list \<Rightarrow> event list" where
  "Register_handleSubmit net formData activeTab log =
     (let log0 = log @ [PreventDefault] in
      if password formData \<noteq> confirmPassword formData then
        log0 @ [Toast \<lparr>title = ''Password mismatch'',
                        description = ''Please ensure both passwords match.'',
                        variant = Some ''destructive''\<rparr>]
      else
        let log1 = log0 @ [ViewSetIsLoading True];
            registerData = \<lparr>reg_username = form_username formData, reg_email = form_email formData,
                            reg_password = password formData\<rparr>;
            caught = (\<lambda>e l. l @
              [Toast \<lparr>title = ''Registration failed'',
                      description = message_or e ''Please try again with different credentials.'',
                      variant = Some ''destructive''\<rparr>]);
            (r, log2) = (if activeTab = ''admin'' then registerAdmin net registerData log1
                         else registerUser net registerData log1);
            log3 =
              (case r of
                 Inl e \<Rightarrow> caught e log2
               | Inr response \<Rightarrow>
                   (case get (Some response) ''success'' of
                      Inl e \<Rightarrow> caught e log2
                    | Inr success \<Rightarrow>
                        if truthy success then
                          (case Register_success response activeTab of
                             Inl e \<Rightarrow> caught e log2
                           | Inr es \<Rightarrow> log2 @ es)
                        else log2))
        in log3 @ [ViewSetIsLoading False])"

fun is_network :: "event \<Rightarrow> bool" where
  "is_network (Fetch u i) = True"
| "is_network (Settled r) = True"
| "is_network e = False"

fun is_CallLogin :: "event \<Rightarrow> bool" where
  "is_CallLogin (CallLogin t u a) = True"
| "is_CallLogin e = False"

section \<open>Networks and the call that a request makes\<close>

text \<open>Two networks for concrete runs: one where every \<open>fetch\<close> rejects with the same error,
  one where every \<open>fetch\<close> resolves to the same response.\<close>

definition always_rejects :: "error \<Rightarrow> network" where
  "always_rejects e = (\<lambda>history url init. Inl e)"

definition always_answers :: "Response \<Rightarrow> network" where
  "always_answers r = (\<lambda>history url init. Inr r)"

text \<open>The second argument of the \<open>fetch\<close> that \<open>request\<close> makes, and what the network answers
  to that call.\<close>

definition fetch_init :: "RequestInit \<Rightarrow> RequestInit" where
  "fetch_init options =
     options\<lparr>headers := Some (getAuthHeaders None ++
                (case headers options of None \<Rightarrow> Map.empty | Some h \<Rightarrow> h))\<rparr>"

definition answer :: "network \<Rightarrow> string \<Rightarrow> RequestInit \<Rightarrow> event list \<Rightarrow> error + Response" where
  "answer net endpoint options log = net (fetched log) (API_BASE_URL @ endpoint) (fetch_init options)"

definition approving_server :: network where
  "approving_server =
     always_answers \<lparr>status = 200,
       json = Inr (JObject [(''success'', JBool True),
                            (''data'', JObject [(''articles'', JArray [])])])\<rparr>"

section \<open>Reading the state after a setter or a storage call\<close>

lemma setToken_fields:
  "token (setToken v s) = v" "user (setToken v s) = user s" "isAdmin (setToken v s) = isAdmin s"
  "isLoading (setToken v s) = isLoading s" "localStorage (setToken v s) = localStorage s"
  "calls (setToken v s) = calls s @ [SetToken v]"
  by (simp_all add: setToken_def)

lemma setUser_fields:
  "token (setUser v s) = token s" "user (setUser v s) = v" "isAdmin (setUser v s) = isAdmin s"
  "isLoading (setUser v s) = isLoading s" "localStorage (setUser v s) = localStorage s"
  "calls (setUser v s) = calls s @ [SetUser v]"
  by (simp_all add: setUser_def)

lemma setIsAdmin_fields:
  "token (setIsAdmin v s) = token s" "user (setIsAdmin v s) = user s" "isAdmin (setIsAdmin v s) = v"
  "isLoading (setIsAdmin v s) = isLoading s" "localStorage (setIsAdmin v s) = localStorage s"
  "calls (setIsAdmin v s) = calls s @ [SetIsAdmin v]"
  by (simp_all add: setIsAdmin_def)

lemma setIsLoading_fields:
  "token (setIsLoading v s) = token s" "user (setIsLoading v s) = user s"
  "isAdmin (setIsLoading v s) = isAdmin s" "isLoading (setIsLoading v s) = v"
  "localStorage (setIsLoading v s) = localStorage s"
  "calls (setIsLoading v s) = calls s @ [SetIsLoading v]"
  by (simp_all add: setIsLoading_def)

lemma setItem_fields:
  "token (setItem k v s) = token s" "user (setItem k v s) = user s"
  "isAdmin (setItem k v s) = isAdmin s" "isLoading (setItem k v s) = isLoading s"
  "localStorage (setItem k v s) = (localStorage s)(k \<mapsto> v)" "calls (setItem k v s) = calls s"
  by (simp_all add: setItem_def)

lemma removeItem_fields:
  "token (removeItem k s) = token s" "user (removeItem k s) = user s"
  "isAdmin (removeItem k s) = isAdmin s" "isLoading (removeItem k s) = isLoading s"
  "localStorage (removeItem k s) = (localStorage s)(k := None)" "calls (removeItem k s) = calls s"
  by (simp_all add: removeItem_def)

lemma AuthProvider_initial_fields:
  "token (AuthProvider_initial st) = None" "user (AuthProvider_initial st) = None"
  "isAdmin (AuthProvider_initial st) = False" "isLoading (AuthProvider_initial st) = True"
  "localStorage (AuthProvider_initial st) = st" "calls (AuthProvider_initial st) = []"
  by (simp_all add: AuthProvider_initial_def)

lemmas state_fields =
  setToken_fields setUser_fields setIsAdmin_fields setIsLoading_fields setItem_fields
  removeItem_fields AuthProvider_initial_fields

lemma login_fields:
  "token (login t u a s) = held t"
  "user (login t u a s) = held u"
  "isAdmin (login t u a s) = (a = Some True)"
  "isLoading (login t u a s) = isLoading s"
  "localStorage (login t u a s) =
     (localStorage s)(''token'' \<mapsto> String_arg t, ''user'' \<mapsto> String_arg (JSON_stringify_User u),
                      ''isAdmin'' \<mapsto> bool_toString (a = Some True))"
  by (cases a; simp add: login_def state_fields)+

lemma logout_fields:
  "token (logout s) = None"
  "user (logout s) = None"
  "isAdmin (logout s) = False"
  "isLoading (logout s) = isLoading s"
  "localStorage (logout s) = (localStorage s)(''token'' := None, ''user'' := None, ''isAdmin'' := None)"
  by (simp_all add: logout_def state_fields)

lemma initialize_empty_storage:
  "initialize parse (AuthProvider_initial Map.empty) =
     Returned (setIsLoading False (AuthProvider_initial Map.empty))"
  by (simp add: initialize_def getItem_def state_fields)

section \<open>The reader inverts JSON.stringify on user records\<close>

lemma hex_value_hex_lower: "d < 16 \<Longrightarrow> hex_value (hex_lower d) = Some d"
  by (auto simp: hex_value_def hex_lower_def Let_def)

lemma hex_value_zero: "hex_value CHR ''0'' = Some 0"
  by (simp add: hex_value_def)

lemma read_string_u00:
  assumes "(of_char c :: nat) < 32"
  shows "read_string (backslash # CHR ''u'' # CHR ''0'' # CHR ''0'' #
            hex_lower ((of_char c :: nat) div 16) # hex_lower ((of_char c :: nat) mod 16) # r) =
         prepend c (read_string r)"
proof -
  have hi: "hex_value (hex_lower ((of_char c :: nat) div 16)) = Some ((of_char c :: nat) div 16)"
    using assms by (intro hex_value_hex_lower) simp
  have lo: "hex_value (hex_lower ((of_char c :: nat) mod 16)) = Some ((of_char c :: nat) mod 16)"
    by (intro hex_value_hex_lower) simp
  show ?thesis
    using assms by (simp add: hi lo hex_value_zero)
qed

lemma read_string_escape:
  "read_string (concat (map JSON_escape s) @ dquote # rest) = Some (s, rest)"
proof (induction s)
  case Nil
  show ?case by simp
next
  case (Cons c s)
  consider (special) "c \<in> {CHR 0x08, CHR 0x09, CHR 0x0A, CHR 0x0C, CHR 0x0D, dquote, backslash}"
    | (control) "c \<notin> {CHR 0x08, CHR 0x09, CHR 0x0A, CHR 0x0C, CHR 0x0D, dquote, backslash}"
        "(of_char c :: nat) < 32"
    | (plain) "c \<notin> {CHR 0x08, CHR 0x09, CHR 0x0A, CHR 0x0C, CHR 0x0D, dquote, backslash}"
        "\<not> (of_char c :: nat) < 32"
    by blast
  then show ?case
  proof cases
    case special
    then show ?thesis
      using Cons.IH by (auto simp: JSON_escape_def simple_escape_def prepend_def)
  next
    case control
    then have "JSON_escape c = [backslash, CHR ''u'', CHR ''0'', CHR ''0'',
              hex_lower ((of_char c :: nat) div 16), hex_lower ((of_char c :: nat) mod 16)]"
      by (simp add: JSON_escape_def)
    then show ?thesis
      using Cons.IH control(2) by (simp add: read_string_u00 prepend_def del: read_string.simps)
  next
    case plain
    then have "JSON_escape c = [c]"
      by (simp add: JSON_escape_def)
    then show ?thesis
      using Cons.IH plain by (simp add: prepend_def)
  qed
qed

lemma expect_append: "expect p (p @ r) = Some r"
  by (simp add: expect_def)

lemma stringify_User:
  "JSON_stringify (User_json u) =
     ''{'' @ (QuoteJSONString ''id'' @ '':'' @ [dquote]) @ concat (map JSON_escape (user_id u)) @ dquote #
     '','' @ (QuoteJSONString ''username'' @ '':'' @ [dquote]) @ concat (map JSON_escape (username u)) @ dquote #
     '','' @ (QuoteJSONString ''email'' @ '':'' @ [dquote]) @ concat (map JSON_escape (email u)) @ dquote # ''}''"
  by (simp add: User_json_def QuoteJSONString_def)

lemma read_member_append:
  "read_member key ((QuoteJSONString key @ '':'' @ [dquote]) @ concat (map JSON_escape v) @ dquote # rest) =
     Some (v, rest)"
  unfolding read_member_def expect_append by (simp add: read_string_escape)

lemma expect_Cons: "expect [c] (c # r) = Some r"
  by (simp add: expect_def)

lemma read_User_stringify: "read_User (JSON_stringify (User_json u)) = Some u"
  by (simp only: stringify_User read_User_def expect_append read_member_append option.case
        prod.case if_True refl) simp

lemma stringify_User_not_null: "JSON_stringify (User_json u) \<noteq> ''null''"
  by (simp add: User_json_def)

lemma JSON_parse_User_stringify: "JSON_parse_User (JSON_stringify (User_json u)) = Inr (Some u)"
  by (simp add: JSON_parse_User_def stringify_User_not_null read_User_stringify)

lemma JSON_parse_User_inverts: "JSON_parse_inverts JSON_parse_User"
  by (simp add: JSON_parse_inverts_def JSON_parse_User_stringify)

lemma stringify_User_nonempty: "JSON_stringify (User_json u) \<noteq> []"
  by (simp add: User_json_def)

section \<open>The mount effect and the store invariant\<close>

lemma initialize_cases:
  "initialize parse s =
     (case (localStorage s ''token'', localStorage s ''user'') of
        (Some t, Some txt) \<Rightarrow>
          if t \<noteq> [] \<and> txt \<noteq> [] then
            (case parse txt of
               Inl e \<Rightarrow> Threw e (setToken (Some t) s)
             | Inr u \<Rightarrow> Returned (setIsLoading False
                 (setIsAdmin (localStorage s ''isAdmin'' = Some ''true'') (setUser u (setToken (Some t) s)))))
          else Returned (setIsLoading False s)
      | _ \<Rightarrow> Returned (setIsLoading False s))"
  by (auto simp: initialize_def getItem_def Let_def split: option.splits sum.splits)






section \<open>Properties of the route guard\<close>

text \<open>
  C1. Inside the provider, the guard decides in this order, for both flavours (the plain
  guard omits \<open>adminOnly\<close>, the admin guard sets it): while the session is loading it
  renders the loading indicator, whatever \<open>user\<close> and \<open>isAdmin\<close> are; otherwise, with no
  user, it redirects to /login, replacing history; otherwise, on an admin-only route
  without the admin flag, it redirects to /dashboard, replacing history; otherwise it
  renders the children unchanged.
\<close>

theorem ProtectedRoute_decision:
  "(isLoading s \<longrightarrow> ProtectedRoute c adminOnly (Some s) = Inr Spinner) \<and>
   (\<not> isLoading s \<and> user s = None \<longrightarrow>
      ProtectedRoute c adminOnly (Some s) = Inr (Navigate ''/login'' True)) \<and>
   (\<not> isLoading s \<and> user s \<noteq> None \<and> adminOnly = Some True \<and> \<not> isAdmin s \<longrightarrow>
      ProtectedRoute c adminOnly (Some s) = Inr (Navigate ''/dashboard'' True)) \<and>
   (\<not> isLoading s \<and> user s \<noteq> None \<and> (adminOnly = Some True \<longrightarrow> isAdmin s) \<longrightarrow>
      ProtectedRoute c adminOnly (Some s) = Inr (Fragment c))"
  by (cases adminOnly) (auto simp: ProtectedRoute_def useAuth_def)

text \<open>The four cases at concrete sessions: still loading (with an admin logged in), loaded
  and empty, a plain user on an admin route, and the same user on a plain route.\<close>

theorem ProtectedRoute_decision_witness:
  "ProtectedRoute ''view'' None
     (Some (login (Given ''t'') (Given \<lparr>user_id = ''1'', username = ''alice'', email = ''a@x.com''\<rparr>) (Some True)
        (AuthProvider_initial Map.empty))) = Inr Spinner \<and>
   ProtectedRoute ''view'' (Some True)
     (Some (setIsLoading False (AuthProvider_initial Map.empty))) = Inr (Navigate ''/login'' True) \<and>
   ProtectedRoute ''view'' (Some True)
     (Some (login (Given ''t'') (Given \<lparr>user_id = ''1'', username = ''alice'', email = ''a@x.com''\<rparr>) None
        (setIsLoading False (AuthProvider_initial Map.empty)))) = Inr (Navigate ''/dashboard'' True) \<and>
   ProtectedRoute ''view'' None
     (Some (login (Given ''t'') (Given \<lparr>user_id = ''1'', username = ''alice'', email = ''a@x.com''\<rparr>) None
        (setIsLoading False (AuthProvider_initial Map.empty)))) = Inr (Fragment ''view'')"
  using
    ProtectedRoute_decision [of "login (Given ''t'') (Given \<lparr>user_id = ''1'', username = ''alice'', email = ''a@x.com''\<rparr>)
        (Some True) (AuthProvider_initial Map.empty)" "''view''" None]
    ProtectedRoute_decision [of "setIsLoading False (AuthProvider_initial Map.empty)" "''view''" "Some True"]
    ProtectedRoute_decision [of "login (Given ''t'') (Given \<lparr>user_id = ''1'', username = ''alice'', email = ''a@x.com''\<rparr>)
        None (setIsLoading False (AuthProvider_initial Map.empty))" "''view''" "Some True"]
    ProtectedRoute_decision [of "login (Given ''t'') (Given \<lparr>user_id = ''1'', username = ''alice'', email = ''a@x.com''\<rparr>)
        None (setIsLoading False (AuthProvider_initial Map.empty))" "''view''" None]
  by (simp add: login_fields state_fields)

section \<open>Properties of the session store\<close>

text \<open>
  C5. From any state and for any arguments, \<open>login\<close> followed by \<open>logout\<close> leaves no token
  and no user, the admin flag false, and none of the storage keys token, user and isAdmin;
  the rest of the storage and the loading flag are as before. Started from the state of a
  first run (empty storage, after the mount effect), the session and the storage are those
  of the first run.
\<close>

theorem login_logout_empty:
  "token (logout (login newToken newUser adminStatus s)) = None \<and>
   user (logout (login newToken newUser adminStatus s)) = None \<and>
   isAdmin (logout (login newToken newUser adminStatus s)) = False \<and>
   isLoading (logout (login newToken newUser adminStatus s)) = isLoading s \<and>
   localStorage (logout (login newToken newUser adminStatus s)) ''token'' = None \<and>
   localStorage (logout (login newToken newUser adminStatus s)) ''user'' = None \<and>
   localStorage (logout (login newToken newUser adminStatus s)) ''isAdmin'' = None \<and>
   localStorage (logout (login newToken newUser adminStatus s)) =
     (localStorage s)(''token'' := None, ''user'' := None, ''isAdmin'' := None) \<and>
   initialize parse (AuthProvider_initial Map.empty) =
     Returned (setIsLoading False (AuthProvider_initial Map.empty)) \<and>
   (let first = setIsLoading False (AuthProvider_initial Map.empty);
        s' = logout (login newToken newUser adminStatus first)
    in token s' = token first \<and> user s' = user first \<and> isAdmin s' = isAdmin first \<and>
       isLoading s' = isLoading first \<and> localStorage s' = localStorage first \<and>
       localStorage s' = Map.empty)"
  by (simp add: logout_fields login_fields state_fields initialize_empty_storage Let_def)

text \<open>
  C2. A well-formed triple has a non-empty token (the presence test of the code, here and
  in every view, takes the empty string for no token) and a user record. For every such
  triple, \<open>login\<close> from any state, followed by the mount effect of a fresh provider over the
  storage that \<open>login\<close> wrote, returns a session with the token, the user record and the
  admin flag that \<open>login\<close> produced; the flag is false when the argument is omitted.
\<close>

theorem login_then_initialize:
  assumes "JSON_parse_inverts parse" and "newToken \<noteq> []"
  shows "\<exists>s'. initialize parse (AuthProvider_initial (localStorage
                  (login (Given newToken) (Given newUser) adminStatus s)))
            = Returned s' \<and>
          token s' = token (login (Given newToken) (Given newUser) adminStatus s) \<and>
          user s' = user (login (Given newToken) (Given newUser) adminStatus s) \<and>
          isAdmin s' = isAdmin (login (Given newToken) (Given newUser) adminStatus s) \<and>
          token s' = Some newToken \<and> user s' = Some newUser \<and>
          isAdmin s' = (adminStatus = Some True) \<and> isLoading s' = False"
proof -
  have p: "parse (JSON_stringify (User_json newUser)) = Inr (Some newUser)"
    using assms(1) by (simp add: JSON_parse_inverts_def)
  show ?thesis
    using assms(2)
    by (simp add: initialize_cases login_fields state_fields p stringify_User_nonempty bool_toString_def)
qed

theorem login_then_initialize_witness:
  "JSON_parse_inverts JSON_parse_User \<and> ''tok'' \<noteq> [] \<and>
   (\<exists>s'. initialize JSON_parse_User (AuthProvider_initial (localStorage
             (login (Given ''tok'') (Given \<lparr>user_id = ''1'', username = ''alice'', email = ''a@x.com''\<rparr>) None
                (AuthProvider_initial Map.empty)))) = Returned s' \<and>
         token s' = Some ''tok'' \<and>
         user s' = Some \<lparr>user_id = ''1'', username = ''alice'', email = ''a@x.com''\<rparr> \<and>
         isAdmin s' = False \<and> isLoading s' = False)"
  using login_then_initialize [OF JSON_parse_User_inverts, where newToken = "''tok''"
      and newUser = "\<lparr>user_id = ''1'', username = ''alice'', email = ''a@x.com''\<rparr>" and adminStatus = None
      and s = "AuthProvider_initial Map.empty"]
    JSON_parse_User_inverts
  by auto

text \<open>The empty token is where the round trip stops: \<open>login\<close> stores it, and the mount
  effect takes it for absent.\<close>

lemma login_empty_token_then_initialize:
  "initialize parse (AuthProvider_initial (localStorage (login (Given []) newUser adminStatus s))) =
     Returned (setIsLoading False
       (AuthProvider_initial (localStorage (login (Given []) newUser adminStatus s))))"
  by (simp add: initialize_cases login_fields state_fields)







text \<open>
  C7. The mount effect ends by setting \<open>isLoading\<close> to false, once, when it returns; it does
  not return for every storage content. Here the storage holds a token and, under
  \<open>user\<close>, the text \<open>undefined\<close> (what \<open>JSON.stringify(undefined)\<close> leaves there):
  \<open>JSON.parse\<close> throws a SyntaxError after \<open>setToken\<close>, \<open>setIsLoading\<close> is never called and
  \<open>isLoading\<close> stays true.
\<close>

theorem initialize_throws_on_malformed_user:
  "initialize JSON_parse_User
     (AuthProvider_initial
        [''token'' \<mapsto> ''t'', ''user'' \<mapsto> ''undefined'', ''isAdmin'' \<mapsto> ''false'']) =
     Threw (SyntaxError ''JSON.parse: unexpected input'')
       (setToken (Some ''t'') (AuthProvider_initial
          [''token'' \<mapsto> ''t'', ''user'' \<mapsto> ''undefined'', ''isAdmin'' \<mapsto> ''false''])) \<and>
   isLoading (setToken (Some ''t'') (AuthProvider_initial
          [''token'' \<mapsto> ''t'', ''user'' \<mapsto> ''undefined'', ''isAdmin'' \<mapsto> ''false''])) = True \<and>
   calls (setToken (Some ''t'') (AuthProvider_initial
          [''token'' \<mapsto> ''t'', ''user'' \<mapsto> ''undefined'', ''isAdmin'' \<mapsto> ''false''])) =
     [SetToken (Some ''t'')]"
  by (simp add: initialize_cases state_fields JSON_parse_User_def read_User_def expect_def)

text \<open>That storage is what \<open>login\<close> leaves when it is called with a token and \<open>undefined\<close> for
  the user.\<close>

lemma login_undefined_user_storage:
  "localStorage (login (Given ''t'') Undefined None (AuthProvider_initial Map.empty)) =
     [''token'' \<mapsto> ''t'', ''user'' \<mapsto> ''undefined'', ''isAdmin'' \<mapsto> ''false'']"
  by (simp add: login_fields state_fields bool_toString_def)

text \<open>When the mount effect returns, it has set \<open>isLoading\<close> to false exactly once, as its
  last call; when it throws, it has not called \<open>setIsLoading\<close> at all.\<close>

lemma initialize_returned_isLoading:
  assumes "initialize parse s = Returned s'"
  shows "isLoading s' = False \<and>
         (\<exists>cs. calls s' = calls s @ cs @ [SetIsLoading False] \<and>
               (\<forall>b. SetIsLoading b \<notin> set cs))"
  using assms
  by (auto simp: initialize_cases state_fields split: option.splits if_splits sum.splits)

lemma initialize_threw_isLoading:
  assumes "initialize parse s = Threw e s'"
  shows "isLoading s' = isLoading s \<and> (\<exists>t. calls s' = calls s @ [SetToken t])"
  using assms
  by (auto simp: initialize_cases state_fields split: option.splits if_splits sum.splits)

section \<open>Properties of the API client\<close>

lemma request_cases:
  "request net endpoint options log =
     (let log1 = log @ [Fetch (API_BASE_URL @ endpoint) (fetch_init options),
                        Settled (answer net endpoint options log)];
          thrown = (\<lambda>e. (Inl e, log1 @ [ConsoleError ''API request error:'' e]))
      in case answer net endpoint options log of
           Inl e \<Rightarrow> thrown e
         | Inr response \<Rightarrow>
             (case json response of
                Inl e \<Rightarrow> thrown e
              | Inr data \<Rightarrow>
                  if \<not> ok response then
                    (case get (Some data) ''message'' of
                       Inl e \<Rightarrow> thrown e
                     | Inr m \<Rightarrow>
                         thrown (Error (ToString (or_else m (Some (JString ''API request failed''))))))
                  else (Inr data, log1)))"
  by (simp add: request_def answer_def fetch_init_def Let_def)

lemma fetched_append: "fetched (xs @ ys) = fetched xs @ fetched ys"
  by (induction xs rule: fetched.induct) simp_all

lemma request_fetched:
  "fetched (snd (request net endpoint options log)) =
     fetched log @ [(API_BASE_URL @ endpoint, fetch_init options)]"
  by (simp add: request_cases Let_def fetched_append split: sum.splits)

lemma request_network:
  "filter is_network (snd (request net endpoint options log)) =
     filter is_network log @
       [Fetch (API_BASE_URL @ endpoint) (fetch_init options), Settled (answer net endpoint options log)]"
  by (simp add: request_cases Let_def split: sum.splits)

lemma with_query_limit_50:
  "with_query ''/admin/articles'' (Some [(''limit'', Some (Num 50))]) = ''/admin/articles?limit=50''"
  "with_query ''/admin/articles/pending'' (Some [(''limit'', Some (Num 50))]) =
     ''/admin/articles/pending?limit=50''"
  by code_simp+

lemma fold_append_defined:
  "fold (\<lambda>(key, v) searchParams.
           case v of None \<Rightarrow> searchParams
                   | Some x \<Rightarrow> searchParams @ [(key, param_toString x)]) ps acc =
   acc @ [(k, param_toString x). (k, Some x) \<leftarrow> ps]"
  by (induction ps arbitrary: acc) (auto split: option.splits)

lemma searchParams_of_Some:
  "searchParams_of (Some ps) = [(k, param_toString x). (k, Some x) \<leftarrow> ps]"
  by (simp add: searchParams_of_def fold_append_defined)

lemma join_Cons_empty: "join sep (x # xs) = [] \<Longrightarrow> x = []"
  by (cases xs) simp_all

lemma URLSearchParams_toString_empty: "URLSearchParams_toString es = [] \<longleftrightarrow> es = []"
proof (cases es)
  case Nil
  then show ?thesis by (simp add: URLSearchParams_toString_def)
next
  case (Cons p ps)
  obtain k v where p: "p = (k, v)" by (cases p)
  show ?thesis
    using join_Cons_empty [of "''&''" "urlencode k @ ''='' @ urlencode v"]
    by (auto simp: URLSearchParams_toString_def Cons p)
qed

lemma fetch_init_no_options:
  "fetch_init no_options =
     \<lparr>http_method = None, headers = Some [''Content-Type'' \<mapsto> ''application/json''], body = None\<rparr>"
  by (simp add: fetch_init_def no_options_def getAuthHeaders_def)

lemma fetch_init_auth:
  "fetch_init \<lparr>http_method = m, headers = Some (getAuthHeaders (Some tok)), body = b\<rparr> =
     \<lparr>http_method = m,
      headers = Some (if tok \<noteq> []
                      then [''Content-Type'' \<mapsto> ''application/json'', ''Authorization'' \<mapsto> ''Bearer '' @ tok]
                      else [''Content-Type'' \<mapsto> ''application/json'']),
      body = b\<rparr>"
  by (auto simp: fetch_init_def getAuthHeaders_def)

lemma query_example:
  "URLSearchParams_toString [(''limit'', ''50''), (''search'', ''a b&c'')] = ''limit=50&search=a+b%26c''"
  "int_toString 50 = ''50''"
  by code_simp+

text \<open>
  C4. For every operation of the client (each goes through \<open>request\<close>): when the response
  has a status outside 200..299 and its JSON body is an object whose \<open>message\<close> is a
  non-empty string X, the error raised has the message X; when the status is outside
  200..299 and the JSON body is not \<open>null\<close> and has no \<open>message\<close>, or a falsy one (the empty
  string, \<open>null\<close>, \<open>false\<close>, 0), the error raised has the message \<open>API request failed\<close>; when
  the network call itself fails, the error raised is that failure.
\<close>

theorem request_error_message:
  "(answer net endpoint options log = Inr response \<and> \<not> ok response \<and>
      json response = Inr (JObject kvs) \<and> map_of kvs ''message'' = Some (JString X) \<and> X \<noteq> [] \<longrightarrow>
    fst (request net endpoint options log) = Inl (Error X)) \<and>
   (answer net endpoint options log = Inr response \<and> \<not> ok response \<and>
      json response = Inr data \<and> get (Some data) ''message'' = Inr m \<and> \<not> truthy m \<longrightarrow>
    fst (request net endpoint options log) = Inl (Error ''API request failed'')) \<and>
   (answer net endpoint options log = Inl e \<longrightarrow>
    fst (request net endpoint options log) = Inl e)"
  by (simp add: request_cases Let_def or_else_def ToString_def)

text \<open>A 401 with a message, a 500 without one, and a network that is down.\<close>

theorem request_error_message_witness:
  "fst (request (always_answers \<lparr>status = 401,
          json = Inr (JObject [(''success'', JBool False), (''message'', JString ''Invalid credentials'')])\<rparr>)
        ''/users/login'' no_options []) = Inl (Error ''Invalid credentials'') \<and>
   fst (request (always_answers \<lparr>status = 500, json = Inr (JObject [(''success'', JBool False)])\<rparr>)
        ''/users/login'' no_options []) = Inl (Error ''API request failed'') \<and>
   fst (request (always_rejects (TypeError ''Failed to fetch''))
        ''/users/login'' no_options []) = Inl (TypeError ''Failed to fetch'')"
  using
    request_error_message [of
      "always_answers \<lparr>status = 401,
          json = Inr (JObject [(''success'', JBool False), (''message'', JString ''Invalid credentials'')])\<rparr>"
      "''/users/login''" no_options "[]"
      "\<lparr>status = 401,
          json = Inr (JObject [(''success'', JBool False), (''message'', JString ''Invalid credentials'')])\<rparr>"
      "[(''success'', JBool False), (''message'', JString ''Invalid credentials'')]"
      "''Invalid credentials''"]
    request_error_message [of
      "always_answers \<lparr>status = 500, json = Inr (JObject [(''success'', JBool False)])\<rparr>"
      "''/users/login''" no_options "[]"
      "\<lparr>status = 500, json = Inr (JObject [(''success'', JBool False)])\<rparr>" _ _
      "JObject [(''success'', JBool False)]" None]
    request_error_message [of "always_rejects (TypeError ''Failed to fetch'')"
      "''/users/login''" no_options "[]" _ _ _ _ _ "TypeError ''Failed to fetch''"]
  by (simp add: answer_def always_answers_def always_rejects_def ok_def)

text \<open>A message field whose value is the empty string: the error does not carry it, it
  carries the fallback.\<close>

theorem request_empty_message_counterexample:
  "fst (request (always_answers \<lparr>status = 400, json = Inr (JObject [(''message'', JString [])])\<rparr>)
        ''/users/login'' no_options []) = Inl (Error ''API request failed'') \<and>
   fst (request (always_answers \<lparr>status = 400, json = Inr (JObject [(''message'', JString [])])\<rparr>)
        ''/users/login'' no_options []) \<noteq> Inl (Error [])"
  by (simp add: request_cases answer_def always_answers_def ok_def or_else_def ToString_def)

text \<open>The body \<open>null\<close> has no message field either; reading \<open>data.message\<close> throws, and the
  TypeError is what the caller gets.\<close>

lemma request_null_body:
  "fst (request (always_answers \<lparr>status = 500, json = Inr JNull\<rparr>) ''/users/login'' no_options []) =
     Inl (TypeError (''Cannot read properties of null (reading '' @ [CHR 0x27] @ ''message'' @ [CHR 0x27] @ '')''))"
  by (simp add: request_cases answer_def always_answers_def ok_def)

text \<open>
  C10. \<open>request\<close> parses the body before it looks at the status: for a response of any
  status whose body does not parse, \<open>request\<close> logs and rethrows the failure of the parser
  and does nothing else, so neither a message of the server nor the fallback message is
  produced.
\<close>

theorem request_parse_failure:
  assumes "answer net endpoint options log = Inr response" and "json response = Inl e"
  shows "request net endpoint options log =
           (Inl e, log @ [Fetch (API_BASE_URL @ endpoint) (fetch_init options), Settled (Inr response),
                          ConsoleError ''API request error:'' e])"
  using assms by (simp add: request_cases Let_def)

text \<open>A 502 with an HTML body, and a 200 with an empty body.\<close>

theorem request_parse_failure_witness:
  "fst (request (always_answers \<lparr>status = 502, json = Inl (SyntaxError ''Unexpected token <'')\<rparr>)
        ''/users/dashboard'' no_options []) = Inl (SyntaxError ''Unexpected token <'') \<and>
   fst (request (always_answers \<lparr>status = 200, json = Inl (SyntaxError ''Unexpected end of JSON input'')\<rparr>)
        ''/users/dashboard'' no_options []) = Inl (SyntaxError ''Unexpected end of JSON input'')"
  using
    request_parse_failure [of
      "always_answers \<lparr>status = 502, json = Inl (SyntaxError ''Unexpected token <'')\<rparr>"
      "''/users/dashboard''" no_options "[]"
      "\<lparr>status = 502, json = Inl (SyntaxError ''Unexpected token <'')\<rparr>"
      "SyntaxError ''Unexpected token <''"]
    request_parse_failure [of
      "always_answers \<lparr>status = 200, json = Inl (SyntaxError ''Unexpected end of JSON input'')\<rparr>"
      "''/users/dashboard''" no_options "[]"
      "\<lparr>status = 200, json = Inl (SyntaxError ''Unexpected end of JSON input'')\<rparr>"
      "SyntaxError ''Unexpected end of JSON input''"]
  by (simp add: answer_def always_answers_def)

text \<open>
  C9. For each of the five list operations and every options object (or none): the search
  parameters are the entries whose value is defined, in order, each value as its string;
  an entry whose value is \<open>undefined\<close> is left out. The URL is the endpoint, followed by
  \<open>?\<close> and the serialised parameters when there is at least one. The request carries
  \<open>Content-Type: application/json\<close> and, exactly when the token is supplied (a non-empty
  string; \<open>getAllArticles\<close> takes none), \<open>Authorization: Bearer\<close> and the token;
  it carries no other header.
\<close>

theorem list_operations_request:
  "(let es = (case params_arg of None \<Rightarrow> [] | Some ps \<Rightarrow> [(k, param_toString x). (k, Some x) \<leftarrow> ps]);
        query = (if es = [] then [] else ''?'' @ URLSearchParams_toString es);
        anon = \<lparr>http_method = None,
                headers = Some [''Content-Type'' \<mapsto> ''application/json''], body = None\<rparr>;
        auth = \<lparr>http_method = None,
                headers = Some (if tok \<noteq> []
                   then [''Content-Type'' \<mapsto> ''application/json'', ''Authorization'' \<mapsto> ''Bearer '' @ tok]
                   else [''Content-Type'' \<mapsto> ''application/json'']),
                body = None\<rparr>
    in searchParams_of params_arg = es \<and>
       fetched (snd (getAllArticles net params_arg log)) =
         fetched log @ [(API_BASE_URL @ ''/users/articles'' @ query, anon)] \<and>
       fetched (snd (getUserArticles net tok params_arg log)) =
         fetched log @ [(API_BASE_URL @ ''/users/my-articles'' @ query, auth)] \<and>
       fetched (snd (getPendingArticles net tok params_arg log)) =
         fetched log @ [(API_BASE_URL @ ''/admin/articles/pending'' @ query, auth)] \<and>
       fetched (snd (getAllArticlesAdmin net tok params_arg log)) =
         fetched log @ [(API_BASE_URL @ ''/admin/articles'' @ query, auth)] \<and>
       fetched (snd (getAllUsers net tok params_arg log)) =
         fetched log @ [(API_BASE_URL @ ''/admin/users'' @ query, auth)])"
proof -
  have es: "searchParams_of params_arg =
      (case params_arg of None \<Rightarrow> [] | Some ps \<Rightarrow> [(k, param_toString x). (k, Some x) \<leftarrow> ps])"
    by (cases params_arg) (simp_all add: searchParams_of_Some, simp add: searchParams_of_def)
  have q: "with_query path params_arg =
      path @ (if searchParams_of params_arg = [] then []
              else ''?'' @ URLSearchParams_toString (searchParams_of params_arg))" for path
    by (simp add: with_query_def Let_def URLSearchParams_toString_empty)
  show ?thesis
    unfolding Let_def es [symmetric]
    by (simp add: getAllArticles_def getUserArticles_def getPendingArticles_def
        getAllArticlesAdmin_def getAllUsers_def request_fetched q fetch_init_no_options
        fetch_init_auth)
qed

text \<open>An options object with two of four fields defined, and a call without options.\<close>

theorem list_operations_request_witness:
  "fetched (snd (getAllArticlesAdmin (always_rejects (TypeError ''Failed to fetch'')) ''t''
      (Some [(''page'', None), (''limit'', Some (Num 50)), (''status'', None),
             (''search'', Some (Str ''a b&c''))]) [])) =
     [(API_BASE_URL @ ''/admin/articles?limit=50&search=a+b%26c'',
       \<lparr>http_method = None,
        headers = Some [''Content-Type'' \<mapsto> ''application/json'', ''Authorization'' \<mapsto> ''Bearer t''],
        body = None\<rparr>)] \<and>
   fetched (snd (getAllArticles (always_rejects (TypeError ''Failed to fetch'')) None [])) =
     [(API_BASE_URL @ ''/users/articles'',
       \<lparr>http_method = None, headers = Some [''Content-Type'' \<mapsto> ''application/json''],
        body = None\<rparr>)]"
  using
    list_operations_request [of
      "Some [(''page'', None), (''limit'', Some (Num 50)), (''status'', None),
             (''search'', Some (Str ''a b&c''))]" "''t''"
      "always_rejects (TypeError ''Failed to fetch'')" "[]"]
    list_operations_request [of None "''t''" "always_rejects (TypeError ''Failed to fetch'')" "[]"]
  by (simp add: Let_def query_example)

section \<open>Properties of the views\<close>

text \<open>
  C8. When the password and its confirmation differ, \<open>handleSubmit\<close> of the registration
  form only cancels the default submission and shows the toast \<open>Password mismatch\<close>: it
  calls \<open>fetch\<close> not once, and it does not call \<open>login\<close>, the one way it has to change the
  session.
\<close>

theorem Register_password_mismatch:
  assumes "password formData \<noteq> confirmPassword formData"
  shows "Register_handleSubmit net formData activeTab log =
           log @ [PreventDefault,
                  Toast \<lparr>title = ''Password mismatch'',
                         description = ''Please ensure both passwords match.'',
                         variant = Some ''destructive''\<rparr>] \<and>
         fetched (Register_handleSubmit net formData activeTab log) = fetched log \<and>
         filter is_CallLogin (Register_handleSubmit net formData activeTab log) =
           filter is_CallLogin log"
  using assms by (simp add: Register_handleSubmit_def Let_def fetched_append)

theorem Register_password_mismatch_witness:
  "password \<lparr>form_username = ''alice'', form_email = ''a@x.com'', password = ''p1'',
              confirmPassword = ''p2''\<rparr> \<noteq>
   confirmPassword \<lparr>form_username = ''alice'', form_email = ''a@x.com'', password = ''p1'',
              confirmPassword = ''p2''\<rparr> \<and>
   Register_handleSubmit (always_answers \<lparr>status = 200, json = Inr (JObject [(''success'', JBool True)])\<rparr>)
     \<lparr>form_username = ''alice'', form_email = ''a@x.com'', password = ''p1'', confirmPassword = ''p2''\<rparr>
     ''user'' [] =
     [PreventDefault,
      Toast \<lparr>title = ''Password mismatch'', description = ''Please ensure both passwords match.'',
             variant = Some ''destructive''\<rparr>]"
  using Register_password_mismatch [of
      "\<lparr>form_username = ''alice'', form_email = ''a@x.com'', password = ''p1'', confirmPassword = ''p2''\<rparr>"
      "always_answers \<lparr>status = 200, json = Inr (JObject [(''success'', JBool True)])\<rparr>" "''user''" "[]"]
  by simp

lemma request_call_resume:
  "request net endpoint options log =
     (let (p, log1) = request_call endpoint options log in request_resume net p log1)"
  by (auto simp: request_def request_call_def request_resume_def Let_def split: sum.splits)

lemma request_thrown_trace:
  assumes "fst (request net endpoint options log) = Inl e"
  shows "snd (request net endpoint options log) =
           log @ [Fetch (API_BASE_URL @ endpoint) (fetch_init options),
                  Settled (answer net endpoint options log),
                  ConsoleError ''API request error:'' e]"
  using assms by (auto simp: request_cases Let_def split: sum.splits if_splits)

lemma request_returned_trace:
  assumes "fst (request net endpoint options log) = Inr d"
  shows "snd (request net endpoint options log) =
           log @ [Fetch (API_BASE_URL @ endpoint) (fetch_init options),
                  Settled (answer net endpoint options log)]"
  using assms by (auto simp: request_cases Let_def split: sum.splits if_splits)

lemma request_call_auth:
  "request_call endpoint \<lparr>http_method = m, headers = Some (getAuthHeaders (Some tok)), body = b\<rparr> log =
     (\<lparr>pending_url = API_BASE_URL @ endpoint,
       pending_init = fetch_init \<lparr>http_method = m, headers = Some (getAuthHeaders (Some tok)), body = b\<rparr>,
       pending_history = fetched log\<rparr>,
      log @ [Fetch (API_BASE_URL @ endpoint)
               (fetch_init \<lparr>http_method = m, headers = Some (getAuthHeaders (Some tok)), body = b\<rparr>)])"
  by (simp add: request_call_def fetch_init_def Let_def)

lemma request_resume_trace:
  "\<exists>more. snd (request_resume net p log) =
             log @ [Settled (net (pending_history p) (pending_url p) (pending_init p))] @ more \<and>
          filter is_network more = []"
  by (auto simp: request_resume_def Let_def split: sum.splits if_splits)

lemma AdminArticles_fetchArticles_resume_trace:
  "\<exists>more. AdminArticles_fetchArticles_resume net p log =
             log @ [Settled (net (pending_history p) (pending_url p) (pending_init p))] @ more @
             [ViewSetIsLoading False] \<and>
          filter is_network more = []"
proof -
  obtain r log1 where g: "request_resume net p log = (r, log1)"
    by (cases "request_resume net p log")
  from request_resume_trace [of net p log] g
  obtain more where m: "log1 = log @ [Settled (net (pending_history p) (pending_url p) (pending_init p))] @ more"
    and n: "filter is_network more = []"
    by auto
  show ?thesis
    using n by (auto simp: AdminArticles_fetchArticles_resume_def g m Let_def split: sum.splits)
qed

lemma AdminPending_fetchPendingArticles_resume_trace:
  "\<exists>more. AdminPending_fetchPendingArticles_resume net p log =
             log @ [Settled (net (pending_history p) (pending_url p) (pending_init p))] @ more @
             [ViewSetIsLoading False] \<and>
          filter is_network more = []"
proof -
  obtain r log1 where g: "request_resume net p log = (r, log1)"
    by (cases "request_resume net p log")
  from request_resume_trace [of net p log] g
  obtain more where m: "log1 = log @ [Settled (net (pending_history p) (pending_url p) (pending_init p))] @ more"
    and n: "filter is_network more = []"
    by auto
  show ?thesis
    using n by (auto simp: AdminPending_fetchPendingArticles_resume_def g m Let_def split: sum.splits)
qed

lemma approveArticle_thrown:
  assumes "fst (approveArticle net A tok log) = Inl e"
  shows "approveArticle net A tok log =
     (Inl e,
      log @ [Fetch (API_BASE_URL @ ''/admin/articles/'' @ A @ ''/approve'')
          (fetch_init \<lparr>http_method = Some ''PUT'', headers = Some (getAuthHeaders (Some tok)), body = None\<rparr>),
        Settled (net (fetched log) (API_BASE_URL @ ''/admin/articles/'' @ A @ ''/approve'')
          (fetch_init \<lparr>http_method = Some ''PUT'', headers = Some (getAuthHeaders (Some tok)), body = None\<rparr>)),
        ConsoleError ''API request error:'' e])"
  using assms request_thrown_trace [of net "''/admin/articles/'' @ A @ ''/approve''"
      "\<lparr>http_method = Some ''PUT'', headers = Some (getAuthHeaders (Some tok)), body = None\<rparr>" log e]
  by (simp add: approveArticle_def answer_def prod_eq_iff)

lemma approveArticle_returned:
  assumes "fst (approveArticle net A tok log) = Inr d"
  shows "approveArticle net A tok log =
     (Inr d,
      log @ [Fetch (API_BASE_URL @ ''/admin/articles/'' @ A @ ''/approve'')
          (fetch_init \<lparr>http_method = Some ''PUT'', headers = Some (getAuthHeaders (Some tok)), body = None\<rparr>),
        Settled (net (fetched log) (API_BASE_URL @ ''/admin/articles/'' @ A @ ''/approve'')
          (fetch_init \<lparr>http_method = Some ''PUT'', headers = Some (getAuthHeaders (Some tok)), body = None\<rparr>))])"
  using assms request_returned_trace [of net "''/admin/articles/'' @ A @ ''/approve''"
      "\<lparr>http_method = Some ''PUT'', headers = Some (getAuthHeaders (Some tok)), body = None\<rparr>" log d]
  by (simp add: approveArticle_def answer_def prod_eq_iff)

text \<open>
  C6. With a token in the session, the approve action on the article \<open>articleId\<close> issues one
  approve request (PUT /admin/articles/articleId/approve, with the bearer token) and awaits
  it. When the awaited request succeeds, the action shows the toast \<open>Article approved\<close>
  and then issues exactly one refetch of the list (in AdminArticles
  GET /admin/articles?limit=50, in AdminPending GET /admin/articles/pending?limit=50),
  after the approve request has settled; it returns with that refetch in flight, and the
  refetch issues no further request when it settles. When the awaited request fails, the
  action shows the toast \<open>Error approving article\<close> with the message of the error, and
  issues no refetch. In both cases the events of the action are exactly the ones listed.
\<close>

theorem handleApproveArticle_requests:
  assumes "tok \<noteq> []"
  shows
  "(let bearer = [''Content-Type'' \<mapsto> ''application/json'', ''Authorization'' \<mapsto> ''Bearer '' @ tok];
        approve_url = API_BASE_URL @ ''/admin/articles/'' @ articleId @ ''/approve'';
        approve_init = \<lparr>http_method = Some ''PUT'', headers = Some bearer, body = None\<rparr>;
        list_init = \<lparr>http_method = None, headers = Some bearer, body = None\<rparr>;
        approve = [Fetch approve_url approve_init, Settled (net (fetched log) approve_url approve_init)];
        approved = Toast \<lparr>title = ''Article approved'',
                          description = ''The article has been published successfully.'',
                          variant = None\<rparr>;
        refetch = (\<lambda>url. \<lparr>pending_url = url, pending_init = list_init,
                            pending_history = fetched log @ [(approve_url, approve_init)]\<rparr>);
        articles_url = API_BASE_URL @ ''/admin/articles?limit=50'';
        pending_articles_url = API_BASE_URL @ ''/admin/articles/pending?limit=50''
    in ((\<exists>d. fst (approveArticle net articleId tok log) = Inr d) \<longrightarrow>
          AdminArticles_handleApproveArticle net (Some tok) articleId log =
            (Some (refetch articles_url),
             log @ approve @ [approved, Fetch articles_url list_init]) \<and>
          AdminPending_handleApproveArticle net (Some tok) articleId log =
            (Some (refetch pending_articles_url),
             log @ approve @ [approved, Fetch pending_articles_url list_init])) \<and>
       (\<forall>e. fst (approveArticle net articleId tok log) = Inl e \<longrightarrow>
          AdminArticles_handleApproveArticle net (Some tok) articleId log =
            (None,
             log @ approve @
             [ConsoleError ''API request error:'' e,
              Toast \<lparr>title = ''Error approving article'',
                     description = message_or e ''Please try again.'',
                     variant = Some ''destructive''\<rparr>]) \<and>
          AdminPending_handleApproveArticle net (Some tok) articleId log =
            (None,
             log @ approve @
             [ConsoleError ''API request error:'' e,
              Toast \<lparr>title = ''Error approving article'',
                     description = message_or e ''Please try again.'',
                     variant = Some ''destructive''\<rparr>])) \<and>
       (\<forall>later. \<exists>more.
          AdminArticles_fetchArticles_resume net (refetch articles_url) later =
            later @ [Settled (net (fetched log @ [(approve_url, approve_init)]) articles_url list_init)]
              @ more @ [ViewSetIsLoading False] \<and>
          filter is_network more = []) \<and>
       (\<forall>later. \<exists>more.
          AdminPending_fetchPendingArticles_resume net (refetch pending_articles_url) later =
            later @ [Settled (net (fetched log @ [(approve_url, approve_init)]) pending_articles_url
                       list_init)]
              @ more @ [ViewSetIsLoading False] \<and>
          filter is_network more = []))"
proof -
  have ok_case: "AdminArticles_handleApproveArticle net (Some tok) articleId log =
        (Some \<lparr>pending_url = API_BASE_URL @ ''/admin/articles?limit=50'',
               pending_init = \<lparr>http_method = None, headers = Some [''Content-Type'' \<mapsto> ''application/json'', ''Authorization'' \<mapsto> ''Bearer '' @ tok], body = None\<rparr>,
               pending_history = fetched log @ [(API_BASE_URL @ ''/admin/articles/'' @ articleId @ ''/approve'',
                 \<lparr>http_method = Some ''PUT'', headers = Some [''Content-Type'' \<mapsto> ''application/json'', ''Authorization'' \<mapsto> ''Bearer '' @ tok], body = None\<rparr>)]\<rparr>,
         log @ [Fetch (API_BASE_URL @ ''/admin/articles/'' @ articleId @ ''/approve'')
                  \<lparr>http_method = Some ''PUT'', headers = Some [''Content-Type'' \<mapsto> ''application/json'', ''Authorization'' \<mapsto> ''Bearer '' @ tok], body = None\<rparr>,
                Settled (net (fetched log) (API_BASE_URL @ ''/admin/articles/'' @ articleId @ ''/approve'')
                  \<lparr>http_method = Some ''PUT'', headers = Some [''Content-Type'' \<mapsto> ''application/json'', ''Authorization'' \<mapsto> ''Bearer '' @ tok], body = None\<rparr>),
                Toast \<lparr>title = ''Article approved'',
                       description = ''The article has been published successfully.'', variant = None\<rparr>,
                Fetch (API_BASE_URL @ ''/admin/articles?limit=50'')
                  \<lparr>http_method = None, headers = Some [''Content-Type'' \<mapsto> ''application/json'', ''Authorization'' \<mapsto> ''Bearer '' @ tok], body = None\<rparr>])"
      and ok_pending: "AdminPending_handleApproveArticle net (Some tok) articleId log =
        (Some \<lparr>pending_url = API_BASE_URL @ ''/admin/articles/pending?limit=50'',
               pending_init = \<lparr>http_method = None, headers = Some [''Content-Type'' \<mapsto> ''application/json'', ''Authorization'' \<mapsto> ''Bearer '' @ tok], body = None\<rparr>,
               pending_history = fetched log @ [(API_BASE_URL @ ''/admin/articles/'' @ articleId @ ''/approve'',
                 \<lparr>http_method = Some ''PUT'', headers = Some [''Content-Type'' \<mapsto> ''application/json'', ''Authorization'' \<mapsto> ''Bearer '' @ tok], body = None\<rparr>)]\<rparr>,
         log @ [Fetch (API_BASE_URL @ ''/admin/articles/'' @ articleId @ ''/approve'')
                  \<lparr>http_method = Some ''PUT'', headers = Some [''Content-Type'' \<mapsto> ''application/json'', ''Authorization'' \<mapsto> ''Bearer '' @ tok], body = None\<rparr>,
                Settled (net (fetched log) (API_BASE_URL @ ''/admin/articles/'' @ articleId @ ''/approve'')
                  \<lparr>http_method = Some ''PUT'', headers = Some [''Content-Type'' \<mapsto> ''application/json'', ''Authorization'' \<mapsto> ''Bearer '' @ tok], body = None\<rparr>),
                Toast \<lparr>title = ''Article approved'',
                       description = ''The article has been published successfully.'', variant = None\<rparr>,
                Fetch (API_BASE_URL @ ''/admin/articles/pending?limit=50'')
                  \<lparr>http_method = None, headers = Some [''Content-Type'' \<mapsto> ''application/json'', ''Authorization'' \<mapsto> ''Bearer '' @ tok], body = None\<rparr>])"
    if "fst (approveArticle net articleId tok log) = Inr d" for d
    using assms approveArticle_returned [OF that]
    by (simp_all add: AdminArticles_handleApproveArticle_def AdminPending_handleApproveArticle_def
        AdminArticles_fetchArticles_call_def AdminPending_fetchPendingArticles_call_def
        request_call_auth with_query_limit_50 fetch_init_auth fetched_append Let_def)
  have fail_case: "AdminArticles_handleApproveArticle net (Some tok) articleId log =
        (None,
         log @ [Fetch (API_BASE_URL @ ''/admin/articles/'' @ articleId @ ''/approve'')
                  \<lparr>http_method = Some ''PUT'', headers = Some [''Content-Type'' \<mapsto> ''application/json'', ''Authorization'' \<mapsto> ''Bearer '' @ tok], body = None\<rparr>,
                Settled (net (fetched log) (API_BASE_URL @ ''/admin/articles/'' @ articleId @ ''/approve'')
                  \<lparr>http_method = Some ''PUT'', headers = Some [''Content-Type'' \<mapsto> ''application/json'', ''Authorization'' \<mapsto> ''Bearer '' @ tok], body = None\<rparr>),
                ConsoleError ''API request error:'' e,
                Toast \<lparr>title = ''Error approving article'',
                       description = message_or e ''Please try again.'',
                       variant = Some ''destructive''\<rparr>])"
      and fail_pending: "AdminPending_handleApproveArticle net (Some tok) articleId log =
        (None,
         log @ [Fetch (API_BASE_URL @ ''/admin/articles/'' @ articleId @ ''/approve'')
                  \<lparr>http_method = Some ''PUT'', headers = Some [''Content-Type'' \<mapsto> ''application/json'', ''Authorization'' \<mapsto> ''Bearer '' @ tok], body = None\<rparr>,
                Settled (net (fetched log) (API_BASE_URL @ ''/admin/articles/'' @ articleId @ ''/approve'')
                  \<lparr>http_method = Some ''PUT'', headers = Some [''Content-Type'' \<mapsto> ''application/json'', ''Authorization'' \<mapsto> ''Bearer '' @ tok], body = None\<rparr>),
                ConsoleError ''API request error:'' e,
                Toast \<lparr>title = ''Error approving article'',
                       description = message_or e ''Please try again.'',
                       variant = Some ''destructive''\<rparr>])"
    if "fst (approveArticle net articleId tok log) = Inl e" for e
    using assms approveArticle_thrown [OF that]
    by (simp_all add: AdminArticles_handleApproveArticle_def AdminPending_handleApproveArticle_def
        fetch_init_auth Let_def)
  show ?thesis
    unfolding Let_def
    using ok_case ok_pending fail_case fail_pending
      AdminArticles_fetchArticles_resume_trace [of net
        "\<lparr>pending_url = API_BASE_URL @ ''/admin/articles?limit=50'',
          pending_init = \<lparr>http_method = None, headers = Some [''Content-Type'' \<mapsto> ''application/json'', ''Authorization'' \<mapsto> ''Bearer '' @ tok], body = None\<rparr>,
          pending_history = fetched log @ [(API_BASE_URL @ ''/admin/articles/'' @ articleId @ ''/approve'',
             \<lparr>http_method = Some ''PUT'', headers = Some [''Content-Type'' \<mapsto> ''application/json'', ''Authorization'' \<mapsto> ''Bearer '' @ tok], body = None\<rparr>)]\<rparr>"]
      AdminPending_fetchPendingArticles_resume_trace [of net
        "\<lparr>pending_url = API_BASE_URL @ ''/admin/articles/pending?limit=50'',
          pending_init = \<lparr>http_method = None, headers = Some [''Content-Type'' \<mapsto> ''application/json'', ''Authorization'' \<mapsto> ''Bearer '' @ tok], body = None\<rparr>,
          pending_history = fetched log @ [(API_BASE_URL @ ''/admin/articles/'' @ articleId @ ''/approve'',
             \<lparr>http_method = Some ''PUT'', headers = Some [''Content-Type'' \<mapsto> ''application/json'', ''Authorization'' \<mapsto> ''Bearer '' @ tok], body = None\<rparr>)]\<rparr>"]
    by (intro conjI impI allI) (auto simp del: append_assoc)
qed

text \<open>A server that approves and lists, and a server that answers 404 to the approve
  request.\<close>

theorem handleApproveArticle_requests_witness:
  "''t'' \<noteq> [] \<and>
   map fst (fetched (snd (AdminArticles_handleApproveArticle approving_server (Some ''t'') ''A1'' []))) =
     [API_BASE_URL @ ''/admin/articles/A1/approve'', API_BASE_URL @ ''/admin/articles?limit=50''] \<and>
   map fst (fetched (snd (AdminPending_handleApproveArticle approving_server (Some ''t'') ''A1'' []))) =
     [API_BASE_URL @ ''/admin/articles/A1/approve'', API_BASE_URL @ ''/admin/articles/pending?limit=50''] \<and>
   AdminArticles_handleApproveArticle (always_answers \<lparr>status = 404, json = Inr (JObject [(''message'', JString ''Article not found'')])\<rparr>) (Some ''t'') ''A1'' [] =
     (None,
      [Fetch (API_BASE_URL @ ''/admin/articles/A1/approve'')
         \<lparr>http_method = Some ''PUT'',
          headers = Some [''Content-Type'' \<mapsto> ''application/json'', ''Authorization'' \<mapsto> ''Bearer t''],
          body = None\<rparr>,
       Settled (Inr \<lparr>status = 404, json = Inr (JObject [(''message'', JString ''Article not found'')])\<rparr>),
       ConsoleError ''API request error:'' (Error ''Article not found''),
       Toast \<lparr>title = ''Error approving article'', description = ''Article not found'',
              variant = Some ''destructive''\<rparr>])"
proof -
  have s: "\<exists>d. fst (approveArticle approving_server ''A1'' ''t'' []) = Inr d"
    by (simp add: approveArticle_def request_cases answer_def approving_server_def always_answers_def ok_def)
  have e: "fst (approveArticle (always_answers \<lparr>status = 404, json = Inr (JObject [(''message'', JString ''Article not found'')])\<rparr>) ''A1'' ''t'' []) = Inl (Error ''Article not found'')"
    by (simp add: approveArticle_def request_cases answer_def always_answers_def ok_def or_else_def
        ToString_def)
  have t: "''t'' \<noteq> []" by simp
  from handleApproveArticle_requests [OF t, where net = approving_server and articleId = "''A1''"
      and log = "[]"] s
  have 1: "map fst (fetched (snd (AdminArticles_handleApproveArticle approving_server (Some ''t'') ''A1'' []))) =
     [API_BASE_URL @ ''/admin/articles/A1/approve'', API_BASE_URL @ ''/admin/articles?limit=50'']"
    and 2: "map fst (fetched (snd (AdminPending_handleApproveArticle approving_server (Some ''t'') ''A1'' []))) =
     [API_BASE_URL @ ''/admin/articles/A1/approve'', API_BASE_URL @ ''/admin/articles/pending?limit=50'']"
    by (simp_all add: Let_def)
  from handleApproveArticle_requests [OF t, where net = "always_answers \<lparr>status = 404, json = Inr (JObject [(''message'', JString ''Article not found'')])\<rparr>"
      and articleId = "''A1''" and log = "[]"] e
  have 3: "AdminArticles_handleApproveArticle (always_answers \<lparr>status = 404, json = Inr (JObject [(''message'', JString ''Article not found'')])\<rparr>) (Some ''t'') ''A1'' [] =
     (None,
      [Fetch (API_BASE_URL @ ''/admin/articles/A1/approve'')
         \<lparr>http_method = Some ''PUT'',
          headers = Some [''Content-Type'' \<mapsto> ''application/json'', ''Authorization'' \<mapsto> ''Bearer t''],
          body = None\<rparr>,
       Settled (Inr \<lparr>status = 404, json = Inr (JObject [(''message'', JString ''Article not found'')])\<rparr>),
       ConsoleError ''API request error:'' (Error ''Article not found''),
       Toast \<lparr>title = ''Error approving article'', description = ''Article not found'',
              variant = Some ''destructive''\<rparr>])"
    by (simp add: Let_def always_answers_def message_or_def)
  show ?thesis
    using 1 2 3 by simp
qed

text \<open>With the network down the approve request is issued, the error toast is shown, and
  no refetch is issued or left in flight.\<close>

theorem handleApproveArticle_failure_counterexample:
  "map fst (fetched (snd (AdminArticles_handleApproveArticle
      (always_rejects (TypeError ''Failed to fetch'')) (Some ''t'') ''A1'' []))) =
     [API_BASE_URL @ ''/admin/articles/A1/approve''] \<and>
   fst (AdminArticles_handleApproveArticle
      (always_rejects (TypeError ''Failed to fetch'')) (Some ''t'') ''A1'' []) = None \<and>
   map fst (fetched (snd (AdminPending_handleApproveArticle
      (always_rejects (TypeError ''Failed to fetch'')) (Some ''t'') ''A1'' []))) =
     [API_BASE_URL @ ''/admin/articles/A1/approve''] \<and>
   fst (AdminPending_handleApproveArticle
      (always_rejects (TypeError ''Failed to fetch'')) (Some ''t'') ''A1'' []) = None"
  by (simp add: AdminArticles_handleApproveArticle_def AdminPending_handleApproveArticle_def
      approveArticle_def request_cases answer_def always_rejects_def Let_def)

end
